theory Spec2Isabelle
  imports Complex_Main
begin

section \<open>Values of the program\<close>

text \<open>
  The repository is one file, \<^verbatim>\<open>function_app.py\<close>: two HTTP handlers,
  \<^verbatim>\<open>process_document\<close> and \<^verbatim>\<open>get_answer\<close>, and two helpers that build the
  clients of the external services. Text is a \<open>string\<close>: one \<open>char\<close> per character of a
  Python \<^verbatim>\<open>str\<close>, so \<open>length\<close> is Python's \<^verbatim>\<open>len\<close> on texts whose code points are
  below 256.
\<close>

subsection \<open>JSON values and \<^verbatim>\<open>json.dumps\<close>\<close>

text \<open>
  A Python value that \<^verbatim>\<open>json.loads\<close> returns or \<^verbatim>\<open>json.dumps\<close> accepts. A \<^verbatim>\<open>dict\<close>
  keeps the insertion order of its keys, so an object is an association list; the keys of
  a \<^verbatim>\<open>dict\<close> are distinct, and \<open>map_of\<close> is its lookup.
\<close>

datatype json =
    JNull
  | JBool bool
  | JInt int
  | JFloat real
  | JString string
  | JArray "json list"
  | JObject "(string \<times> json) list"

text \<open>Python's truth value of such a value, as \<^verbatim>\<open>if not query\<close> tests it.\<close>

fun truthy :: "json \<Rightarrow> bool" where
  "truthy JNull = False"
| "truthy (JBool b) = b"
| "truthy (JInt i) = (i \<noteq> 0)"
| "truthy (JFloat r) = (r \<noteq> 0)"
| "truthy (JString s) = (s \<noteq> [])"
| "truthy (JArray xs) = (xs \<noteq> [])"
| "truthy (JObject kvs) = (kvs \<noteq> [])"

text \<open>\<^verbatim>\<open>sep.join(xs)\<close>.\<close>

fun join :: "string \<Rightarrow> string list \<Rightarrow> string" where
  "join sep [] = []"
| "join sep [x] = x"
| "join sep (x # y # ys) = x @ sep @ join sep (y # ys)"

definition hex_digits :: string where
  "hex_digits = ''0123456789abcdef''"

fun str_nat :: "nat \<Rightarrow> string" where
  "str_nat n = (if n < 10 then [hex_digits ! n] else str_nat (n div 10) @ [hex_digits ! (n mod 10)])"

declare str_nat.simps [simp del]

fun hex_nat :: "nat \<Rightarrow> string" where
  "hex_nat n = (if n < 16 then [hex_digits ! n] else hex_nat (n div 16) @ [hex_digits ! (n mod 16)])"

declare hex_nat.simps [simp del]

text \<open>\<^verbatim>\<open>str(i)\<close> of a Python \<^verbatim>\<open>int\<close>.\<close>

definition str_int :: "int \<Rightarrow> string" where
  "str_int i = (if i < 0 then CHR ''-'' # str_nat (nat (- i)) else str_nat (nat i))"

text \<open>
  The string encoder of \<^verbatim>\<open>json.dumps\<close> with its default \<^verbatim>\<open>ensure_ascii=True\<close>: the
  quote, the backslash and the control characters with a short escape get it, a printable
  ASCII character stands for itself, and every other character becomes \<^verbatim>\<open>\u00XX\<close>.
\<close>

definition json_escape_char :: "char \<Rightarrow> string" where
  "json_escape_char c =
     (if c = CHR 0x22 then [CHR 0x5C, CHR 0x22]
      else if c = CHR 0x5C then [CHR 0x5C, CHR 0x5C]
      else if c = CHR 0x0A then [CHR 0x5C, CHR ''n'']
      else if c = CHR 0x0D then [CHR 0x5C, CHR ''r'']
      else if c = CHR 0x09 then [CHR 0x5C, CHR ''t'']
      else if c = CHR 0x08 then [CHR 0x5C, CHR ''b'']
      else if c = CHR 0x0C then [CHR 0x5C, CHR ''f'']
      else if 32 \<le> (of_char c :: nat) \<and> (of_char c :: nat) \<le> 126 then [c]
      else [CHR 0x5C, CHR ''u'', CHR ''0'', CHR ''0'',
            hex_digits ! ((of_char c :: nat) div 16), hex_digits ! ((of_char c :: nat) mod 16)])"

definition json_string :: "string \<Rightarrow> string" where
  "json_string s = CHR 0x22 # concat (map json_escape_char s) @ [CHR 0x22]"

text \<open>
  \<^verbatim>\<open>json.dumps(v)\<close> with the default separators \<^verbatim>\<open>", "\<close> and \<^verbatim>\<open>": "\<close>. The text of a
  \<^verbatim>\<open>float\<close> is Python's \<^verbatim>\<open>float.__repr__\<close>, a parameter here.
\<close>

fun json_dumps :: "(real \<Rightarrow> string) \<Rightarrow> json \<Rightarrow> string" where
  "json_dumps fr JNull = ''null''"
| "json_dumps fr (JBool b) = (if b then ''true'' else ''false'')"
| "json_dumps fr (JInt i) = str_int i"
| "json_dumps fr (JFloat r) = fr r"
| "json_dumps fr (JString s) = json_string s"
| "json_dumps fr (JArray xs) = ''['' @ join '', '' (map (json_dumps fr) xs) @ '']''"
| "json_dumps fr (JObject kvs) =
     ''{'' @ join '', '' (map (\<lambda>kv. json_string (fst kv) @ '': '' @ json_dumps fr (snd kv)) kvs) @ ''}''"

subsection \<open>Exceptions\<close>

text \<open>
  What the handlers read of a caught exception \<^verbatim>\<open>e\<close>: \<^verbatim>\<open>type(e).__name__\<close>,
  \<^verbatim>\<open>str(e)\<close> and \<^verbatim>\<open>e.__traceback__\<close>. A traceback object has an identity (its
  address) and the frames a formatted stack trace would print; \<^verbatim>\<open>str\<close> of it is the
  default object representation, which shows the address only.
\<close>

record traceback =
  tb_address :: nat
  tb_frames :: "string list"

definition str_traceback :: "traceback \<Rightarrow> string" where
  "str_traceback tb = ''<traceback object at 0x'' @ hex_nat (tb_address tb) @ ''>''"

record exception =
  exc_type_name :: string
  exc_str :: string
  exc_traceback :: traceback

subsection \<open>Requests, responses, documents\<close>

text \<open>
  A request, as the handlers observe it: the outcome of
  \<^verbatim>\<open>req.get_body().decode('utf-8')\<close> and the outcome of \<^verbatim>\<open>req.get_json()\<close>, each the
  value or the exception raised (\<^verbatim>\<open>get_json\<close> raises \<^verbatim>\<open>ValueError\<close> on a body that is
  not valid JSON).
\<close>

record http_request =
  get_body_decode :: "exception + string"
  get_json :: "exception + json"

record http_response =
  body :: string
  status_code :: nat
  mimetype :: string

text \<open>\<^verbatim>\<open>func.HttpResponse(body, status_code=None, mimetype=None)\<close> and its defaults.\<close>

definition HttpResponse :: "string \<Rightarrow> nat option \<Rightarrow> string option \<Rightarrow> http_response" where
  "HttpResponse b sc mt =
     \<lparr>body = b,
      status_code = (case sc of None \<Rightarrow> 200 | Some c \<Rightarrow> c),
      mimetype = (case mt of None \<Rightarrow> ''text/plain'' | Some m \<Rightarrow> m)\<rparr>"

record document =
  page_content :: string
  metadata :: "(string \<times> json) list"

record text_splitter =
  chunk_size :: nat
  chunk_overlap :: nat
  separators :: "string list"

subsection \<open>External collaborators\<close>

text \<open>The client objects, each holding the arguments of its constructor.\<close>

datatype embeddings = OpenAIEmbeddings string
datatype pinecone_client = PineconeClient string
datatype pinecone_index = Index pinecone_client string
datatype vector_store = PineconeVectorStore pinecone_index embeddings string
datatype openai_client = OpenAI "string option"

text \<open>A chat completion: the \<^verbatim>\<open>message.content\<close> of each choice, which may be \<^verbatim>\<open>None\<close>.\<close>

record chat_completion =
  choices :: "string option list"

datatype log_level = INFO | ERROR

text \<open>
  What a run of a handler does beyond returning: the log records it writes and the calls
  it makes to the libraries of the external services, in order.
\<close>

datatype event =
    Log log_level string
  | New_embeddings embeddings
  | New_pinecone pinecone_client
  | List_indexes pinecone_client
  | Create_index pinecone_client string nat string string string string
  | Open_index pinecone_index
  | New_vector_store vector_store
  | Add_documents vector_store "document list"
  | Similarity_search vector_store json nat
  | New_openai openai_client
  | Chat_create openai_client string json real nat

fun is_external :: "event \<Rightarrow> bool" where
  "is_external (Log l m) = False"
| "is_external ev = True"

definition external_calls :: "event list \<Rightarrow> event list" where
  "external_calls tr = filter is_external tr"

text \<open>
  The surroundings of one request: the process environment, the clock, and what each
  library call answers (a value or an exception; for a constructor, the exception if it
  raises). Within one request every call is made at most once, \<^verbatim>\<open>datetime.now()\<close>
  apart, which is indexed by the chunk it is called for. Four fields stand for behaviour of
  Python and of the splitter library that the handlers use and do not define: the text of a
  \<^verbatim>\<open>float\<close>, \<^verbatim>\<open>str\<close> of a value that is not a string, the traceback object an
  exception raised in the handlers gets, and \<^verbatim>\<open>split_text\<close> of the splitter.
\<close>

record world =
  getenv :: "string \<Rightarrow> string option"
  datetime_now_str :: "nat \<Rightarrow> string"
  float_repr :: "real \<Rightarrow> string"
  str_non_string :: "json \<Rightarrow> string"
  fresh_traceback :: traceback
  split_text :: "text_splitter \<Rightarrow> string \<Rightarrow> string list"
  embeddings_init :: "string \<Rightarrow> exception option"
  embedding_dim :: "embeddings \<Rightarrow> exception + nat"
  pinecone_init :: "string \<Rightarrow> exception option"
  list_indexes :: "pinecone_client \<Rightarrow> exception + string list"
  create_index ::
    "pinecone_client \<Rightarrow> string \<Rightarrow> nat \<Rightarrow> string \<Rightarrow> string \<Rightarrow> string \<Rightarrow> string \<Rightarrow> exception option"
  index_init :: "pinecone_client \<Rightarrow> string \<Rightarrow> exception option"
  vector_store_init :: "pinecone_index \<Rightarrow> embeddings \<Rightarrow> string \<Rightarrow> exception option"
  add_documents :: "vector_store \<Rightarrow> document list \<Rightarrow> exception option"
  similarity_search_with_score ::
    "vector_store \<Rightarrow> json \<Rightarrow> nat \<Rightarrow> exception + (document \<times> real) list"
  openai_init :: "string option \<Rightarrow> exception option"
  chat_completions_create ::
    "openai_client \<Rightarrow> string \<Rightarrow> json \<Rightarrow> real \<Rightarrow> nat \<Rightarrow> exception + chat_completion"

section \<open>Running a handler\<close>

text \<open>
  A step of a handler takes the events so far and gives a value or the exception it
  raises, with the events extended.
\<close>

type_synonym 'a action = "event list \<Rightarrow> (exception + 'a) \<times> event list"

definition return :: "'a \<Rightarrow> 'a action" where
  "return x = (\<lambda>tr. (Inr x, tr))"

definition raise :: "exception \<Rightarrow> 'a action" where
  "raise e = (\<lambda>tr. (Inl e, tr))"

definition and_then :: "'a action \<Rightarrow> ('a \<Rightarrow> 'b action) \<Rightarrow> 'b action" where
  "and_then m f = (\<lambda>tr. case m tr of (Inl e, tr') \<Rightarrow> (Inl e, tr') | (Inr x, tr') \<Rightarrow> f x tr')"

definition try_except :: "'a action \<Rightarrow> (exception \<Rightarrow> 'a action) \<Rightarrow> 'a action" where
  "try_except m h = (\<lambda>tr. case m tr of (Inl e, tr') \<Rightarrow> h e tr' | (Inr x, tr') \<Rightarrow> (Inr x, tr'))"

text \<open>A pure library call: no event, a value or an exception.\<close>

definition attempt :: "exception + 'a \<Rightarrow> 'a action" where
  "attempt r = (\<lambda>tr. (r, tr))"

definition logging :: "log_level \<Rightarrow> string \<Rightarrow> unit action" where
  "logging l m = (\<lambda>tr. (Inr (), tr @ [Log l m]))"

text \<open>A call to an external library: the event is recorded, then the call answers.\<close>

definition call :: "event \<Rightarrow> exception + 'a \<Rightarrow> 'a action" where
  "call ev r = (\<lambda>tr. (r, tr @ [ev]))"

definition new_object :: "event \<Rightarrow> exception option \<Rightarrow> 'a \<Rightarrow> 'a action" where
  "new_object ev failure obj = call ev (case failure of None \<Rightarrow> Inr obj | Some e \<Rightarrow> Inl e)"

text \<open>An exception raised by the handlers' own code, with the traceback it gets.\<close>

definition new_exception :: "world \<Rightarrow> string \<Rightarrow> string \<Rightarrow> exception" where
  "new_exception w tn msg = \<lparr>exc_type_name = tn, exc_str = msg, exc_traceback = fresh_traceback w\<rparr>"

section \<open>The client factories\<close>

definition initialize_embeddings :: "world \<Rightarrow> embeddings action" where
  "initialize_embeddings w =
     (let openai_api_key = getenv w ''OPENAI_API_KEY'' in
      case openai_api_key of
        None \<Rightarrow> raise (new_exception w ''ValueError'' ''OPENAI_API_KEY not found in environment variables'')
      | Some k \<Rightarrow>
          if k = [] then
            raise (new_exception w ''ValueError'' ''OPENAI_API_KEY not found in environment variables'')
          else new_object (New_embeddings (OpenAIEmbeddings k)) (embeddings_init w k) (OpenAIEmbeddings k))"

definition get_pinecone_client :: "world \<Rightarrow> pinecone_client action" where
  "get_pinecone_client w =
     (let pinecone_api_key = getenv w ''PINECONE_API_KEY'' in
      case pinecone_api_key of
        None \<Rightarrow> raise (new_exception w ''ValueError'' ''PINECONE_API_KEY not found in environment variables'')
      | Some k \<Rightarrow>
          if k = [] then
            raise (new_exception w ''ValueError'' ''PINECONE_API_KEY not found in environment variables'')
          else new_object (New_pinecone (PineconeClient k)) (pinecone_init w k) (PineconeClient k))"

section \<open>The ingestion handler\<close>

text \<open>The list comprehension of lines 58 to 67: one document per chunk, in split order.\<close>

definition chunk_documents :: "world \<Rightarrow> string list \<Rightarrow> document list" where
  "chunk_documents w texts =
     map (\<lambda>(i, t). \<lparr>page_content = t,
                     metadata = [(''chunk_index'', JInt (int i)),
                                 (''upload_date'', JString (datetime_now_str w i))]\<rparr>)
         (enumerate 0 texts)"

text \<open>The body of the \<^verbatim>\<open>try\<close> block of \<^verbatim>\<open>process_document\<close>.\<close>

definition process_document_try :: "world \<Rightarrow> http_request \<Rightarrow> http_response action" where
  "process_document_try w req =
     and_then (attempt (get_body_decode req)) (\<lambda>content.
     and_then (logging INFO (''Content received: '' @ take 100 content)) (\<lambda>_.
     if content = [] then
       return (HttpResponse ''No content received'' (Some 400) None)
     else
       let text_splitter = \<lparr>chunk_size = 1000, chunk_overlap = 200,
                             separators = [[CHR 0x0A, CHR 0x0A], [CHR 0x0A], '' '', '''']\<rparr>;
           texts = split_text w text_splitter content;
           docs = chunk_documents w texts
       in
       and_then (initialize_embeddings w) (\<lambda>embeddings.
       and_then (get_pinecone_client w) (\<lambda>pc.
       let index_name = ''langchain'' in
       and_then (call (List_indexes pc) (list_indexes w pc)) (\<lambda>existing_indexes.
       and_then
         (if index_name \<notin> set existing_indexes then
            and_then (attempt (embedding_dim w embeddings)) (\<lambda>dimension.
            new_object (Create_index pc index_name dimension ''cosine'' ''s1.x1'' ''aws'' ''us-east-1'')
              (create_index w pc index_name dimension ''cosine'' ''s1.x1'' ''aws'' ''us-east-1'') ())
          else return ()) (\<lambda>_.
       and_then (new_object (Open_index (Index pc index_name)) (index_init w pc index_name)
                   (Index pc index_name)) (\<lambda>index.
       and_then (new_object (New_vector_store (PineconeVectorStore index embeddings ''text''))
                   (vector_store_init w index embeddings ''text'')
                   (PineconeVectorStore index embeddings ''text'')) (\<lambda>vector_store.
       and_then (new_object (Add_documents vector_store docs) (add_documents w vector_store docs) ()) (\<lambda>_.
       return (HttpResponse
                 (json_dumps (float_repr w)
                    (JObject [(''status'', JString ''success''),
                              (''chunks_processed'', JInt (int (length docs)))]))
                 None (Some ''application/json'')))))))))))"

text \<open>The \<^verbatim>\<open>except Exception as e\<close> block of \<^verbatim>\<open>process_document\<close>.\<close>

definition process_document_except :: "world \<Rightarrow> exception \<Rightarrow> http_response action" where
  "process_document_except w e =
     and_then (logging ERROR (''Error processing document: '' @ exc_str e)) (\<lambda>_.
     let error_details = JObject [(''error'', JString (exc_str e)),
                                  (''type'', JString (exc_type_name e)),
                                  (''trace'', JString (str_traceback (exc_traceback e)))]
     in return (HttpResponse (json_dumps (float_repr w) error_details) (Some 500)
                  (Some ''application/json'')))"

definition process_document :: "world \<Rightarrow> http_request \<Rightarrow> (exception + http_response) \<times> event list" where
  "process_document w req =
     and_then (logging INFO ''Process Document function processed a request.'') (\<lambda>_.
     try_except (process_document_try w req) (process_document_except w)) []"

section \<open>The query handler\<close>

text \<open>
  \<^verbatim>\<open>req_body.get(key)\<close> and \<^verbatim>\<open>req_body.get(key, default)\<close>: only a \<^verbatim>\<open>dict\<close> has the
  method, any other parsed JSON value raises \<^verbatim>\<open>AttributeError\<close>.
\<close>

fun type_name :: "json \<Rightarrow> string" where
  "type_name JNull = ''NoneType''"
| "type_name (JBool b) = ''bool''"
| "type_name (JInt i) = ''int''"
| "type_name (JFloat r) = ''float''"
| "type_name (JString s) = ''str''"
| "type_name (JArray xs) = ''list''"
| "type_name (JObject kvs) = ''dict''"

definition dict_get :: "world \<Rightarrow> json \<Rightarrow> string \<Rightarrow> json \<Rightarrow> json action" where
  "dict_get w d k dflt =
     (case d of
        JObject kvs \<Rightarrow> return (case map_of kvs k of None \<Rightarrow> dflt | Some v \<Rightarrow> v)
      | _ \<Rightarrow> raise (new_exception w ''AttributeError''
                     ([CHR 0x27] @ type_name d @ [CHR 0x27] @ '' object has no attribute '' @
                      [CHR 0x27] @ ''get'' @ [CHR 0x27])))"

text \<open>\<^verbatim>\<open>str.isspace\<close> on a character below 256, and \<^verbatim>\<open>str.strip()\<close>.\<close>

definition py_isspace :: "char \<Rightarrow> bool" where
  "py_isspace c =
     ((9 \<le> (of_char c :: nat) \<and> (of_char c :: nat) \<le> 13) \<or>
      (28 \<le> (of_char c :: nat) \<and> (of_char c :: nat) \<le> 32) \<or>
      (of_char c :: nat) = 133 \<or> (of_char c :: nat) = 160)"

definition strip :: "string \<Rightarrow> string" where
  "strip s = rev (dropWhile py_isspace (rev (dropWhile py_isspace s)))"

text \<open>
  What \<^verbatim>\<open>{query}\<close> inserts in the f-string: \<^verbatim>\<open>str(query)\<close>, the string itself when the
  query is one.
\<close>

definition format_value :: "world \<Rightarrow> json \<Rightarrow> string" where
  "format_value w v = (case v of JString s \<Rightarrow> s | _ \<Rightarrow> str_non_string w v)"

text \<open>\<^verbatim>\<open>response.choices[0].message.content.strip()\<close>.\<close>

definition first_choice_content :: "world \<Rightarrow> chat_completion \<Rightarrow> string action" where
  "first_choice_content w response =
     (case choices response of
        [] \<Rightarrow> raise (new_exception w ''IndexError'' ''list index out of range'')
      | None # _ \<Rightarrow> raise (new_exception w ''AttributeError''
                     ([CHR 0x27] @ ''NoneType'' @ [CHR 0x27] @ '' object has no attribute '' @
                      [CHR 0x27] @ ''strip'' @ [CHR 0x27]))
      | Some c # _ \<Rightarrow> return (strip c))"

text \<open>The list comprehension of line 149: the results scoring above 0.7, in retrieval order.\<close>

definition above_threshold :: "(document \<times> real) list \<Rightarrow> (document \<times> real) list" where
  "above_threshold results = filter (\<lambda>(doc, score). score > 0.7) results"

text \<open>The body of the \<^verbatim>\<open>try\<close> block of \<^verbatim>\<open>get_answer\<close>.\<close>

definition get_answer_try :: "world \<Rightarrow> http_request \<Rightarrow> http_response action" where
  "get_answer_try w req =
     and_then (attempt (get_json req)) (\<lambda>req_body.
     and_then (dict_get w req_body ''query'' JNull) (\<lambda>query.
     and_then (dict_get w req_body ''system_prompt'' (JString ''You are an AI assistant.'')) (\<lambda>system_prompt.
     if \<not> truthy query then
       return (HttpResponse (json_dumps (float_repr w) (JObject [(''error'', JString ''No query provided'')]))
                 (Some 400) (Some ''application/json''))
     else
       and_then (initialize_embeddings w) (\<lambda>embeddings.
       and_then (get_pinecone_client w) (\<lambda>pc.
       let index_name = ''langchain'' in
       and_then (new_object (Open_index (Index pc index_name)) (index_init w pc index_name)
                   (Index pc index_name)) (\<lambda>index.
       and_then (new_object (New_vector_store (PineconeVectorStore index embeddings ''text''))
                   (vector_store_init w index embeddings ''text'')
                   (PineconeVectorStore index embeddings ''text'')) (\<lambda>vector_store.
       and_then (call (Similarity_search vector_store query 3)
                   (similarity_search_with_score w vector_store query 3)) (\<lambda>results.
       let filtered_results = above_threshold results in
       if filtered_results = [] then
         return (HttpResponse
                   (json_dumps (float_repr w)
                      (JObject [(''answer'', JString ''I couldn't find any relevant information to answer your question.''),
                                (''metadata'', JObject [(''query'', query),
                                                        (''documents_found'', JInt (int (length results)))])]))
                   None (Some ''application/json''))
       else
         let context = join [CHR 0x0A, CHR 0x0A] (map (\<lambda>(doc, score). page_content doc) filtered_results);
             messages = JArray
               [JObject [(''role'', JString ''system''), (''content'', system_prompt)],
                JObject [(''role'', JString ''user''),
                         (''content'', JString (''Context:'' @ [CHR 0x0A] @ context @ [CHR 0x0A, CHR 0x0A] @
                                                ''Question: '' @ format_value w query))]]
         in
         and_then (new_object (New_openai (OpenAI (getenv w ''OPENAI_API_KEY'')))
                     (openai_init w (getenv w ''OPENAI_API_KEY''))
                     (OpenAI (getenv w ''OPENAI_API_KEY''))) (\<lambda>client.
         and_then (call (Chat_create client ''gpt-4'' messages 0.2 800)
                     (chat_completions_create w client ''gpt-4'' messages 0.2 800)) (\<lambda>response.
         and_then (first_choice_content w response) (\<lambda>answer.
         return (HttpResponse
                   (json_dumps (float_repr w)
                      (JObject [(''answer'', JString answer),
                                (''context'', JString context),
                                (''similar_docs'',
                                 JArray (map (\<lambda>(doc, score).
                                                JObject [(''content'', JString (page_content doc)),
                                                         (''score'', JFloat score)])
                                             filtered_results))]))
                   None (Some ''application/json'')))))))))))))"

text \<open>The \<^verbatim>\<open>except Exception as e\<close> block of \<^verbatim>\<open>get_answer\<close>.\<close>

definition get_answer_except :: "world \<Rightarrow> exception \<Rightarrow> http_response action" where
  "get_answer_except w e =
     and_then (logging ERROR (''Error generating answer: '' @ exc_str e)) (\<lambda>_.
     return (HttpResponse (json_dumps (float_repr w) (JObject [(''error'', JString (exc_str e))]))
               (Some 500) (Some ''application/json'')))"

definition get_answer :: "world \<Rightarrow> http_request \<Rightarrow> (exception + http_response) \<times> event list" where
  "get_answer w req =
     and_then (logging INFO ''Get Answer function processed a request.'') (\<lambda>_.
     try_except (get_answer_try w req) (get_answer_except w)) []"

section \<open>The text splitter\<close>

text \<open>
  Modelled from the spec: the splitter is the \<^verbatim>\<open>RecursiveCharacterTextSplitter\<close> of the
  langchain library, whose code is not among the sources; the handler constructs it and calls
  \<^verbatim>\<open>split_text\<close>. The spec gives its contract: overlapping chunks, target size 1000
  characters, 200-character overlap, boundary preference order double newline, newline,
  space, character. The definitions of this section follow the procedure of the library for
  that contract, with its defaults. The handlers above take the splitter as the parameter
  \<open>split_text\<close> of the surroundings; only the scenario of the 1500-character document uses
  this model.
\<close>

text \<open>
  Modelled from the spec: the test of \<^verbatim>\<open>_split_text\<close> whether a separator occurs in the
  text (the separators are literal strings).
\<close>

fun contains :: "string \<Rightarrow> string \<Rightarrow> bool" where
  "contains s [] = (s = [])"
| "contains s (c # cs) = (take (length s) (c # cs) = s \<or> contains s cs)"

text \<open>
  Modelled from the spec: the pieces of the text between the occurrences of a separator,
  found from left to right and not overlapping; \<open>piece\<close> is the piece being read.
\<close>

function split_between :: "string \<Rightarrow> string \<Rightarrow> string \<Rightarrow> string list" where
  "split_between sep piece [] = [piece]"
| "split_between sep piece (c # cs) =
     (if sep \<noteq> [] \<and> take (length sep) (c # cs) = sep
      then piece # split_between sep [] (drop (length sep) (c # cs))
      else split_between sep (piece @ [c]) cs)"
  by pat_completeness auto
termination
  by (relation "measure (\<lambda>(sep, piece, rest). length rest)") auto

text \<open>
  Modelled from the spec: the pieces the text is cut into at a separator. The separator
  stays at the start of the piece that follows it, the empty separator cuts between every
  two characters, and empty pieces are dropped.
\<close>

definition split_text_with_regex :: "string \<Rightarrow> string \<Rightarrow> string list" where
  "split_text_with_regex text separator =
     (let splits =
            (if separator \<noteq> [] then
               (case split_between separator [] text of
                  [] \<Rightarrow> []
                | p # ps \<Rightarrow> p # map (\<lambda>q. separator @ q) ps)
             else map (\<lambda>c. [c]) text)
      in filter (\<lambda>s. s \<noteq> []) splits)"

text \<open>
  Modelled from the spec: a chunk is its pieces joined, stripped of surrounding whitespace;
  an empty chunk is no chunk.
\<close>

definition join_docs :: "string list \<Rightarrow> string \<Rightarrow> string option" where
  "join_docs docs separator =
     (let text = strip (join separator docs) in if text = [] then None else Some text)"

text \<open>
  Modelled from the spec: the overlap. After a chunk is emitted, pieces are dropped from its
  front while more than the overlap remains, or while the next piece would not fit; what
  remains starts the next chunk. (On an empty list the library would raise if the loop
  condition held; it cannot, as the running length of an empty list is 0.)
\<close>

fun pop_front :: "text_splitter \<Rightarrow> int \<Rightarrow> int \<Rightarrow> string list \<Rightarrow> int \<Rightarrow> string list \<times> int" where
  "pop_front ts separator_len len [] running = ([], running)"
| "pop_front ts separator_len len (d # current_doc) running =
     (if running > int (chunk_overlap ts) \<or>
         (running + len + (if length (d # current_doc) > 0 then separator_len else 0) > int (chunk_size ts) \<and>
          running > 0)
      then pop_front ts separator_len len current_doc
             (running - (int (length d) + (if length (d # current_doc) > 1 then separator_len else 0)))
      else (d # current_doc, running))"

text \<open>
  Modelled from the spec: the loop of \<^verbatim>\<open>_merge_splits\<close>, which packs small pieces into
  chunks of at most the target size; \<open>running\<close> is the length of the pieces of the current
  chunk with their separators.
\<close>

fun merge_loop :: "text_splitter \<Rightarrow> string \<Rightarrow> string list \<Rightarrow> string list \<Rightarrow> string list \<Rightarrow> int \<Rightarrow> string list" where
  "merge_loop ts separator [] docs current_doc running =
     (case join_docs current_doc separator of None \<Rightarrow> docs | Some joined \<Rightarrow> docs @ [joined])"
| "merge_loop ts separator (d # splits) docs current_doc running =
     (let separator_len = int (length separator); len = int (length d) in
      if running + len + (if length current_doc > 0 then separator_len else 0) > int (chunk_size ts) then
        if length current_doc > 0 then
          let docs' = (case join_docs current_doc separator of None \<Rightarrow> docs | Some joined \<Rightarrow> docs @ [joined]);
              (current_doc', running') = pop_front ts separator_len len current_doc running;
              current_doc'' = current_doc' @ [d]
          in merge_loop ts separator splits docs' current_doc''
               (running' + len + (if length current_doc'' > 1 then separator_len else 0))
        else
          let current_doc'' = current_doc @ [d]
          in merge_loop ts separator splits docs current_doc''
               (running + len + (if length current_doc'' > 1 then separator_len else 0))
      else
        let current_doc'' = current_doc @ [d]
        in merge_loop ts separator splits docs current_doc''
             (running + len + (if length current_doc'' > 1 then separator_len else 0)))"

text \<open>
  Modelled from the spec: \<^verbatim>\<open>_merge_splits(splits, separator)\<close>.
\<close>

definition merge_splits :: "text_splitter \<Rightarrow> string list \<Rightarrow> string \<Rightarrow> string list" where
  "merge_splits ts splits separator = merge_loop ts separator splits [] [] 0"

text \<open>
  Modelled from the spec: the loop of \<^verbatim>\<open>_split_text\<close> over the pieces. Pieces shorter than
  the target size are collected and merged; a piece that is not is split further by
  \<open>deeper\<close>.
\<close>

fun split_loop :: "text_splitter \<Rightarrow> (string \<Rightarrow> string list) \<Rightarrow> string list \<Rightarrow> string list \<Rightarrow> string list \<Rightarrow> string list" where
  "split_loop ts deeper [] final_chunks good_splits =
     (if good_splits \<noteq> [] then final_chunks @ merge_splits ts good_splits [] else final_chunks)"
| "split_loop ts deeper (s # splits) final_chunks good_splits =
     (if length s < chunk_size ts then split_loop ts deeper splits final_chunks (good_splits @ [s])
      else
        let final_chunks' = (if good_splits \<noteq> [] then final_chunks @ merge_splits ts good_splits []
                             else final_chunks)
        in split_loop ts deeper splits (final_chunks' @ deeper s) [])"

text \<open>
  Modelled from the spec: \<^verbatim>\<open>_split_text(text, separators)\<close>. The first separator of the
  preference order that is empty or occurs in the text is used, and long pieces are split
  with the separators after it; when none occurs, the last one is used. (The library raises
  on an empty separator list; the handler passes four separators.)
\<close>

fun split_text_rec :: "text_splitter \<Rightarrow> string list \<Rightarrow> string \<Rightarrow> string list" where
  "split_text_rec ts [] text = []"
| "split_text_rec ts (s # rest) text =
     (if s = [] then split_loop ts (\<lambda>x. [x]) (split_text_with_regex text s) [] []
      else if contains s text then
        split_loop ts (if rest = [] then (\<lambda>x. [x]) else (\<lambda>x. split_text_rec ts rest x))
          (split_text_with_regex text s) [] []
      else if rest = [] then split_loop ts (\<lambda>x. [x]) (split_text_with_regex text s) [] []
      else split_text_rec ts rest text)"

text \<open>
  Modelled from the spec: \<^verbatim>\<open>text_splitter.split_text(content)\<close>.
\<close>

definition recursive_split_text :: "text_splitter \<Rightarrow> string \<Rightarrow> string list" where
  "recursive_split_text ts text = split_text_rec ts (separators ts) text"

section \<open>Observing a run\<close>

text \<open>The document batches a run hands to \<^verbatim>\<open>vector_store.add_documents\<close>, in order.\<close>

fun upserted :: "event list \<Rightarrow> document list list" where
  "upserted [] = []"
| "upserted (Add_documents vs docs # tr) = docs # upserted tr"
| "upserted (ev # tr) = upserted tr"

fun is_chat_call :: "event \<Rightarrow> bool" where
  "is_chat_call (Chat_create c m ms t mt) = True"
| "is_chat_call ev = False"

text \<open>
  The retrieval of \<^verbatim>\<open>get_answer\<close> (lines 138 to 148) answers \<open>results\<close> for \<open>query\<close>: both
  keys are set, the clients, the index handle and the vector store are built without an
  exception, and \<^verbatim>\<open>similarity_search_with_score(query, k=3)\<close> returns \<open>results\<close>.
\<close>

definition retrieval_returns :: "world \<Rightarrow> json \<Rightarrow> (document \<times> real) list \<Rightarrow> bool" where
  "retrieval_returns w query results =
     (case getenv w ''OPENAI_API_KEY'' of
        None \<Rightarrow> False
      | Some k \<Rightarrow>
          (case getenv w ''PINECONE_API_KEY'' of
             None \<Rightarrow> False
           | Some pk \<Rightarrow>
               k \<noteq> [] \<and> pk \<noteq> [] \<and> embeddings_init w k = None \<and> pinecone_init w pk = None \<and>
               index_init w (PineconeClient pk) ''langchain'' = None \<and>
               vector_store_init w (Index (PineconeClient pk) ''langchain'') (OpenAIEmbeddings k) ''text'' = None \<and>
               similarity_search_with_score w
                 (PineconeVectorStore (Index (PineconeClient pk) ''langchain'') (OpenAIEmbeddings k) ''text'')
                 query 3 = Inr results))"

text \<open>The entry of \<^verbatim>\<open>similar_docs\<close> for one retrieved result (lines 188 to 191).\<close>

definition similar_doc_entry :: "document \<times> real \<Rightarrow> json" where
  "similar_doc_entry r = JObject [(''content'', JString (page_content (fst r))), (''score'', JFloat (snd r))]"

section \<open>Test doubles\<close>

text \<open>
  Surroundings in which every service answers: both keys are set, the index exists, the
  store returns the first \<open>k\<close> of the given results, and the chat model answers. The
  splitter double cuts a long text in two overlapping pieces.
\<close>

definition mock_world :: "(document \<times> real) list \<Rightarrow> world" where
  "mock_world results =
     \<lparr>getenv = (\<lambda>k. if k = ''OPENAI_API_KEY'' then Some ''sk-test''
                     else if k = ''PINECONE_API_KEY'' then Some ''pc-test'' else None),
      datetime_now_str = (\<lambda>i. ''2024-05-01 12:00:00.00000'' @ str_nat i),
      float_repr = (\<lambda>r. if r = 0.9 then ''0.9'' else if r = 0.75 then ''0.75'' else ''0.6''),
      str_non_string = (\<lambda>v. ''?''),
      fresh_traceback = \<lparr>tb_address = 140230, tb_frames = [''function_app.py'']\<rparr>,
      split_text = (\<lambda>ts s. if length s \<le> chunk_size ts then [s]
                             else [take (chunk_size ts) s, drop (chunk_size ts - chunk_overlap ts) s]),
      embeddings_init = (\<lambda>k. None),
      embedding_dim = (\<lambda>e. Inr 1536),
      pinecone_init = (\<lambda>k. None),
      list_indexes = (\<lambda>pc. Inr [''langchain'']),
      create_index = (\<lambda>pc n d m p c r. None),
      index_init = (\<lambda>pc n. None),
      vector_store_init = (\<lambda>i e t. None),
      add_documents = (\<lambda>vs ds. None),
      similarity_search_with_score = (\<lambda>vs q k. Inr (take k results)),
      openai_init = (\<lambda>k. None),
      chat_completions_create = (\<lambda>c m ms t mt. Inr \<lparr>choices = [Some '' An answer. '']\<rparr>)\<rparr>"

text \<open>A request with a text body that is not JSON, and one with a JSON body.\<close>

definition text_request :: "string \<Rightarrow> http_request" where
  "text_request s =
     \<lparr>get_body_decode = Inr s,
      get_json = Inl \<lparr>exc_type_name = ''ValueError'',
                         exc_str = ''HTTP request does not contain valid JSON data'',
                         exc_traceback = \<lparr>tb_address = 139897, tb_frames = [''_http.py'']\<rparr>\<rparr>\<rparr>"

definition json_request :: "string \<Rightarrow> json \<Rightarrow> http_request" where
  "json_request s v = \<lparr>get_body_decode = Inr s, get_json = Inr v\<rparr>"

definition plain_doc :: "string \<Rightarrow> document" where
  "plain_doc s = \<lparr>page_content = s, metadata = []\<rparr>"

section \<open>Helper facts\<close>

lemmas action_defs = and_then_def try_except_def return_def raise_def attempt_def logging_def
  call_def new_object_def

lemma process_document_empty:
  assumes "get_body_decode req = Inr ''''"
  shows "process_document w req =
           (Inr \<lparr>body = ''No content received'', status_code = 400, mimetype = ''text/plain''\<rparr>,
            [Log INFO ''Process Document function processed a request.'', Log INFO ''Content received: ''])"
  using assms by (simp add: process_document_def process_document_try_def action_defs HttpResponse_def)

lemma get_answer_no_query:
  assumes "get_json req = Inr (JObject kvs)" and "map_of kvs ''query'' = None"
  shows "get_answer w req =
           (Inr \<lparr>body = json_dumps (float_repr w) (JObject [(''error'', JString ''No query provided'')]),
                  status_code = 400, mimetype = ''application/json''\<rparr>,
            [Log INFO ''Get Answer function processed a request.''])"
  using assms
  by (simp add: get_answer_def get_answer_try_def action_defs dict_get_def HttpResponse_def
      del: json_dumps.simps)

lemma dumps_no_query:
  \<open>json_dumps fr (JObject [(''error'', JString ''No query provided'')]) = ''{"error": "No query provided"}''\<close>
  by (simp add: json_string_def json_escape_char_def)

section \<open>Empty body of an ingestion request\<close>

text \<open>
  C3: a \<^verbatim>\<open>process_document\<close> request whose body decodes to the empty string is answered
  with status 400, and the run makes no external call: its only events are the two log
  records, so no embedding client is built, and the vector store is neither opened nor
  written.
\<close>

theorem process_document_empty_body:
  assumes "get_body_decode req = Inr ''''"
  shows "process_document w req =
           (Inr \<lparr>body = ''No content received'', status_code = 400, mimetype = ''text/plain''\<rparr>,
            [Log INFO ''Process Document function processed a request.'', Log INFO ''Content received: ''])
         \<and> external_calls (snd (process_document w req)) = []"
  using process_document_empty [OF assms] by (simp add: external_calls_def)

theorem process_document_empty_body_witness:
  "get_body_decode (text_request '''') = Inr '''' \<and>
   process_document (mock_world []) (text_request '''') =
     (Inr \<lparr>body = ''No content received'', status_code = 400, mimetype = ''text/plain''\<rparr>,
      [Log INFO ''Process Document function processed a request.'', Log INFO ''Content received: '']) \<and>
   external_calls (snd (process_document (mock_world []) (text_request ''''))) = []"
  using process_document_empty_body [of "text_request ''''" "mock_world []"]
  by (simp add: text_request_def external_calls_def)

section \<open>Exceptions of the ingestion handler\<close>

text \<open>
  C7: when the \<^verbatim>\<open>try\<close> block of \<^verbatim>\<open>process_document\<close> raises an exception \<open>e\<close>, the
  handler answers with status 500 and the JSON object with exactly the keys
  \<^verbatim>\<open>error\<close> (\<^verbatim>\<open>str(e)\<close>), \<^verbatim>\<open>type\<close> (the name of the type of \<open>e\<close>) and \<^verbatim>\<open>trace\<close>, which
  is the representation of the traceback object (its address, not its frames); the error
  record is the last event of the run, written before the response is returned.
\<close>

theorem process_document_exception_response:
  assumes "process_document_try w req [Log INFO ''Process Document function processed a request.''] = (Inl e, tr)"
  shows "process_document w req =
           (Inr \<lparr>body = json_dumps (float_repr w)
                          (JObject [(''error'', JString (exc_str e)),
                                    (''type'', JString (exc_type_name e)),
                                    (''trace'', JString (''<traceback object at 0x'' @
                                                         hex_nat (tb_address (exc_traceback e)) @ ''>''))]),
                  status_code = 500, mimetype = ''application/json''\<rparr>,
            tr @ [Log ERROR (''Error processing document: '' @ exc_str e)])"
  using assms
  by (simp add: process_document_def process_document_except_def action_defs HttpResponse_def
      str_traceback_def del: json_dumps.simps)

theorem process_document_exception_response_witness:
  \<open>process_document_try ((mock_world []) \<lparr>getenv := (\<lambda>k. None)\<rparr>) (text_request ''hello world'')
     [Log INFO ''Process Document function processed a request.''] =
     (Inl \<lparr>exc_type_name = ''ValueError'',
            exc_str = ''OPENAI_API_KEY not found in environment variables'',
            exc_traceback = \<lparr>tb_address = 140230, tb_frames = [''function_app.py'']\<rparr>\<rparr>,
      [Log INFO ''Process Document function processed a request.'',
       Log INFO ''Content received: hello world'']) \<and>
   process_document ((mock_world []) \<lparr>getenv := (\<lambda>k. None)\<rparr>) (text_request ''hello world'') =
     (Inr \<lparr>body = ''{"error": "OPENAI_API_KEY not found in environment variables", "type": "ValueError", "trace": "<traceback object at 0x223c6>"}'',
            status_code = 500, mimetype = ''application/json''\<rparr>,
      [Log INFO ''Process Document function processed a request.'',
       Log INFO ''Content received: hello world'',
       Log ERROR ''Error processing document: OPENAI_API_KEY not found in environment variables''])\<close>
proof -
  have raised: "process_document_try ((mock_world []) \<lparr>getenv := (\<lambda>k. None)\<rparr>) (text_request ''hello world'')
     [Log INFO ''Process Document function processed a request.''] =
     (Inl \<lparr>exc_type_name = ''ValueError'',
            exc_str = ''OPENAI_API_KEY not found in environment variables'',
            exc_traceback = \<lparr>tb_address = 140230, tb_frames = [''function_app.py'']\<rparr>\<rparr>,
      [Log INFO ''Process Document function processed a request.'',
       Log INFO ''Content received: hello world''])"
    by (simp add: process_document_try_def action_defs text_request_def mock_world_def
        initialize_embeddings_def new_exception_def)
  have hex: "hex_nat 140230 = ''223c6''"
    by (simp add: hex_nat.simps hex_digits_def)
  show ?thesis
    using process_document_exception_response [OF raised] raised
    by (simp add: mock_world_def hex json_string_def json_escape_char_def)
qed

section \<open>A query request without a query\<close>

text \<open>
  C8, as amended: a \<^verbatim>\<open>get_answer\<close> request whose body parses to a JSON object without a
  \<^verbatim>\<open>query\<close> key is answered with status 400 and the JSON body
  \<^verbatim>\<open>{"error": "No query provided"}\<close>, and the run makes no external call (no embedding,
  no retrieval, no chat completion).
\<close>

theorem get_answer_missing_query:
  assumes "get_json req = Inr (JObject kvs)" and "map_of kvs ''query'' = None"
  shows \<open>get_answer w req =
           (Inr \<lparr>body = ''{"error": "No query provided"}'', status_code = 400,
                  mimetype = ''application/json''\<rparr>,
            [Log INFO ''Get Answer function processed a request.''])
         \<and> body (projr (fst (get_answer w req))) =
             json_dumps (float_repr w) (JObject [(''error'', JString ''No query provided'')])
         \<and> external_calls (snd (get_answer w req)) = []\<close>
  using get_answer_no_query [OF assms]
  by (simp add: external_calls_def dumps_no_query del: json_dumps.simps)

theorem get_answer_missing_query_witness:
  \<open>get_json (json_request ''{"system_prompt": "Be brief."}'' (JObject [(''system_prompt'', JString ''Be brief.'')]))
     = Inr (JObject [(''system_prompt'', JString ''Be brief.'')]) \<and>
   map_of [(''system_prompt'', JString ''Be brief.'')] ''query'' = None \<and>
   get_answer (mock_world [])
       (json_request ''{"system_prompt": "Be brief."}'' (JObject [(''system_prompt'', JString ''Be brief.'')])) =
     (Inr \<lparr>body = ''{"error": "No query provided"}'', status_code = 400, mimetype = ''application/json''\<rparr>,
      [Log INFO ''Get Answer function processed a request.''])\<close>
  using get_answer_missing_query [of "json_request ''{\"system_prompt\": \"Be brief.\"}'' (JObject [(''system_prompt'', JString ''Be brief.'')])"
      "[(''system_prompt'', JString ''Be brief.'')]" "mock_world []"]
  by (simp add: json_request_def)

text \<open>
  The claim as it stands covers every JSON body without a \<^verbatim>\<open>query\<close> field. The body
  \<^verbatim>\<open>[]\<close> is valid JSON and has none, yet \<^verbatim>\<open>req_body.get\<close> raises \<^verbatim>\<open>AttributeError\<close> on
  a list, and the handler answers 500.
\<close>

theorem get_answer_non_object_counterexample:
  \<open>get_json (json_request ''[]'' (JArray [])) = Inr (JArray []) \<and>
   get_answer (mock_world []) (json_request ''[]'' (JArray [])) =
     (Inr \<lparr>body = ''{"error": "'list' object has no attribute 'get'"}'',
            status_code = 500, mimetype = ''application/json''\<rparr>,
      [Log INFO ''Get Answer function processed a request.'',
       Log ERROR (''Error generating answer: 'list' object has no attribute 'get'' @ [CHR 0x27])])\<close>
  by (simp add: get_answer_def get_answer_try_def get_answer_except_def action_defs dict_get_def
      HttpResponse_def json_request_def new_exception_def json_string_def json_escape_char_def)

lemma get_answer_try_status:
  assumes "get_answer_try w req tr = (Inr resp, tr')"
  shows "status_code resp = 200 \<or>
         (status_code resp = 400 \<and>
          (\<exists>kvs. get_json req = Inr (JObject kvs) \<and>
                 \<not> truthy (case map_of kvs ''query'' of None \<Rightarrow> JNull | Some v \<Rightarrow> v)))"
proof (cases "get_json req")
  case (Inl e)
  with assms show ?thesis by (simp add: get_answer_try_def action_defs)
next
  case (Inr j)
  show ?thesis
  proof (cases j)
    case (JObject kvs)
    show ?thesis
    proof (cases "truthy (case map_of kvs ''query'' of None \<Rightarrow> JNull | Some v \<Rightarrow> v)")
      case False
      with assms Inr JObject show ?thesis
        by (auto simp add: get_answer_try_def action_defs dict_get_def HttpResponse_def
            simp del: json_dumps.simps)
    next
      case True
      with assms Inr JObject have "status_code resp = 200"
        by (auto simp add: get_answer_try_def action_defs dict_get_def HttpResponse_def
            initialize_embeddings_def get_pinecone_client_def first_choice_content_def Let_def
            simp del: json_dumps.simps
            split: sum.splits option.splits if_splits list.splits prod.splits)
      then show ?thesis by simp
    qed
  qed (use assms Inr in \<open>simp_all add: get_answer_try_def action_defs dict_get_def\<close>)
qed

lemma get_answer_cases:
  "(\<exists>resp tr. get_answer_try w req [Log INFO ''Get Answer function processed a request.''] = (Inr resp, tr) \<and>
       get_answer w req = (Inr resp, tr)) \<or>
   (\<exists>e tr. get_answer_try w req [Log INFO ''Get Answer function processed a request.''] = (Inl e, tr) \<and>
       get_answer w req =
         (Inr \<lparr>body = json_dumps (float_repr w) (JObject [(''error'', JString (exc_str e))]),
                status_code = 500, mimetype = ''application/json''\<rparr>,
          tr @ [Log ERROR (''Error generating answer: '' @ exc_str e)]))"
proof (cases "get_answer_try w req [Log INFO ''Get Answer function processed a request.'']")
  case (Pair r tr)
  then show ?thesis
    by (cases r)
      (simp_all add: get_answer_def get_answer_except_def and_then_def try_except_def logging_def
        return_def HttpResponse_def del: json_dumps.simps)
qed

lemma get_answer_bad_json:
  assumes "get_json req = Inl e"
  shows "get_answer w req =
           (Inr \<lparr>body = json_dumps (float_repr w) (JObject [(''error'', JString (exc_str e))]),
                  status_code = 500, mimetype = ''application/json''\<rparr>,
            [Log INFO ''Get Answer function processed a request.'',
             Log ERROR (''Error generating answer: '' @ exc_str e)])"
  using assms
  by (simp add: get_answer_def get_answer_try_def get_answer_except_def action_defs HttpResponse_def
      del: json_dumps.simps)

lemma get_answer_400_only_validation:
  assumes "fst (get_answer w req) = Inr resp" and "status_code resp = 400"
  shows "\<exists>kvs. get_json req = Inr (JObject kvs) \<and>
               \<not> truthy (case map_of kvs ''query'' of None \<Rightarrow> JNull | Some v \<Rightarrow> v)"
proof -
  let ?tr0 = "[Log INFO ''Get Answer function processed a request.'']"
  from get_answer_cases [of w req] show ?thesis
  proof (elim disjE exE conjE)
    fix r tr
    assume tried: "get_answer_try w req ?tr0 = (Inr r, tr)" and run: "get_answer w req = (Inr r, tr)"
    from run assms have "status_code r = 400" by simp
    with get_answer_try_status [OF tried] show ?thesis by simp
  next
    fix e tr
    assume "get_answer w req =
         (Inr \<lparr>body = json_dumps (float_repr w) (JObject [(''error'', JString (exc_str e))]),
                status_code = 500, mimetype = ''application/json''\<rparr>,
          tr @ [Log ERROR (''Error generating answer: '' @ exc_str e)])"
    with assms show ?thesis by (auto simp del: json_dumps.simps)
  qed
qed

section \<open>A query request with a body that is not JSON\<close>

text \<open>
  C10: when \<^verbatim>\<open>req.get_json()\<close> raises (the body is not valid JSON, an empty body
  included), the exception is caught by the generic handler and \<^verbatim>\<open>get_answer\<close> answers
  with status 500 and the JSON body \<^verbatim>\<open>{"error": str(e)}\<close>, not 400; and a response with
  status 400 is only ever given to a body that parsed to a JSON object whose \<^verbatim>\<open>query\<close> is
  missing or not truthy.
\<close>

theorem get_answer_invalid_json:
  "(get_json req = Inl e \<longrightarrow>
      get_answer w req =
        (Inr \<lparr>body = json_dumps (float_repr w) (JObject [(''error'', JString (exc_str e))]),
               status_code = 500, mimetype = ''application/json''\<rparr>,
         [Log INFO ''Get Answer function processed a request.'',
          Log ERROR (''Error generating answer: '' @ exc_str e)])) \<and>
   (\<forall>resp. fst (get_answer w req) = Inr resp \<and> status_code resp = 400 \<longrightarrow>
      (\<exists>kvs. get_json req = Inr (JObject kvs) \<and>
             \<not> truthy (case map_of kvs ''query'' of None \<Rightarrow> JNull | Some v \<Rightarrow> v)))"
  using get_answer_bad_json get_answer_400_only_validation by blast

theorem get_answer_invalid_json_witness:
  \<open>get_json (text_request '''') =
      Inl \<lparr>exc_type_name = ''ValueError'', exc_str = ''HTTP request does not contain valid JSON data'',
           exc_traceback = \<lparr>tb_address = 139897, tb_frames = [''_http.py'']\<rparr>\<rparr> \<and>
   get_answer (mock_world []) (text_request '''') =
     (Inr \<lparr>body = ''{"error": "HTTP request does not contain valid JSON data"}'',
            status_code = 500, mimetype = ''application/json''\<rparr>,
      [Log INFO ''Get Answer function processed a request.'',
       Log ERROR ''Error generating answer: HTTP request does not contain valid JSON data'']) \<and>
   fst (get_answer (mock_world []) (json_request ''{"query": ""}'' (JObject [(''query'', JString '''')]))) =
     Inr \<lparr>body = ''{"error": "No query provided"}'', status_code = 400, mimetype = ''application/json''\<rparr> \<and>
   (\<exists>kvs. get_json (json_request ''{"query": ""}'' (JObject [(''query'', JString '''')])) = Inr (JObject kvs) \<and>
          \<not> truthy (case map_of kvs ''query'' of None \<Rightarrow> JNull | Some v \<Rightarrow> v))\<close>
proof -
  let ?bad = "text_request ''''"
  let ?e = "\<lparr>exc_type_name = ''ValueError'', exc_str = ''HTTP request does not contain valid JSON data'',
           exc_traceback = \<lparr>tb_address = 139897, tb_frames = [''_http.py'']\<rparr>\<rparr>"
  let ?noq = "json_request ''{\"query\": \"\"}'' (JObject [(''query'', JString '''')])"
  let ?r400 = "\<lparr>body = ''{\"error\": \"No query provided\"}'', status_code = 400, mimetype = ''application/json''\<rparr>"
  have raised: "get_json ?bad = Inl ?e"
    by (simp add: text_request_def)
  have r400: "fst (get_answer (mock_world []) ?noq) = Inr ?r400"
    by (simp add: get_answer_def get_answer_try_def action_defs dict_get_def HttpResponse_def
        json_request_def json_string_def json_escape_char_def)
  have first: "get_answer (mock_world []) ?bad =
        (Inr \<lparr>body = json_dumps (float_repr (mock_world [])) (JObject [(''error'', JString (exc_str ?e))]),
               status_code = 500, mimetype = ''application/json''\<rparr>,
         [Log INFO ''Get Answer function processed a request.'',
          Log ERROR (''Error generating answer: '' @ exc_str ?e)])"
    using get_answer_invalid_json [of ?bad ?e "mock_world []"] raised by blast
  have second: "\<exists>kvs. get_json ?noq = Inr (JObject kvs) \<and>
          \<not> truthy (case map_of kvs ''query'' of None \<Rightarrow> JNull | Some v \<Rightarrow> v)"
    using get_answer_invalid_json [of ?noq _ "mock_world []"] r400 by simp
  from raised first r400 second show ?thesis
    by (simp add: json_string_def json_escape_char_def)
qed

section \<open>Input-validation errors\<close>

text \<open>
  C6, as amended: each input-validation error is answered with status 400; the missing query
  of \<^verbatim>\<open>get_answer\<close> with the minimal JSON body \<^verbatim>\<open>{"error": "No query provided"}\<close>
  (media type \<^verbatim>\<open>application/json\<close>), the empty body of \<^verbatim>\<open>process_document\<close> with the
  plain text \<^verbatim>\<open>No content received\<close> (the default media type \<^verbatim>\<open>text/plain\<close>).
\<close>

theorem validation_errors_status_400:
  \<open>(get_body_decode req = Inr '''' \<longrightarrow>
      fst (process_document w req) =
        Inr \<lparr>body = ''No content received'', status_code = 400, mimetype = ''text/plain''\<rparr>) \<and>
   (get_json req' = Inr (JObject kvs) \<and> map_of kvs ''query'' = None \<longrightarrow>
      fst (get_answer w req') =
        Inr \<lparr>body = ''{"error": "No query provided"}'', status_code = 400,
              mimetype = ''application/json''\<rparr> \<and>
      ''{"error": "No query provided"}'' =
        json_dumps (float_repr w) (JObject [(''error'', JString ''No query provided'')]))\<close>
  using process_document_empty [of req w] get_answer_no_query [of req' kvs w]
  by (simp add: dumps_no_query del: json_dumps.simps)

theorem validation_errors_status_400_witness:
  \<open>get_body_decode (text_request '''') = Inr '''' \<and>
   fst (process_document (mock_world []) (text_request '''')) =
     Inr \<lparr>body = ''No content received'', status_code = 400, mimetype = ''text/plain''\<rparr> \<and>
   get_json (json_request ''{}'' (JObject [])) = Inr (JObject []) \<and>
   map_of ([] :: (string \<times> json) list) ''query'' = None \<and>
   fst (get_answer (mock_world []) (json_request ''{}'' (JObject []))) =
     Inr \<lparr>body = ''{"error": "No query provided"}'', status_code = 400, mimetype = ''application/json''\<rparr>\<close>
  using validation_errors_status_400 [of "text_request ''''" "mock_world []" "json_request ''{}'' (JObject [])" "[]"]
  by (simp add: text_request_def json_request_def del: json_dumps.simps)

text \<open>
  The claim as it stands gives both errors a JSON body. The 400 response of
  \<^verbatim>\<open>process_document\<close> is built from a string literal and no media type: its body is
  not the JSON object a \<^verbatim>\<open>json.dumps\<close> of the message would give, and its media type is
  not \<^verbatim>\<open>application/json\<close>.
\<close>

theorem process_document_400_not_json_counterexample:
  "fst (process_document (mock_world []) (text_request '''')) =
     Inr \<lparr>body = ''No content received'', status_code = 400, mimetype = ''text/plain''\<rparr> \<and>
   mimetype (projr (fst (process_document (mock_world []) (text_request '''')))) \<noteq> ''application/json'' \<and>
   body (projr (fst (process_document (mock_world []) (text_request '''')))) \<noteq>
     json_dumps (float_repr (mock_world [])) (JObject [(''error'', JString ''No content received'')])"
  by (simp add: process_document_empty text_request_def json_string_def json_escape_char_def)

section \<open>The score threshold of the query handler\<close>

lemma above_threshold_eq: "above_threshold results = filter (\<lambda>r. 0.7 < snd r) results"
  unfolding above_threshold_def by (rule filter_cong) auto

lemma above_threshold_empty:
  assumes "\<forall>r \<in> set results. snd r \<le> 0.7"
  shows "above_threshold results = []"
  using assms by (auto simp add: above_threshold_eq filter_empty_conv)

lemma get_answer_retrieved:
  assumes "retrieval_returns w query results"
  shows "\<exists>k pk. getenv w ''OPENAI_API_KEY'' = Some k \<and> getenv w ''PINECONE_API_KEY'' = Some pk \<and>
           k \<noteq> [] \<and> pk \<noteq> [] \<and> embeddings_init w k = None \<and> pinecone_init w pk = None \<and>
           index_init w (PineconeClient pk) ''langchain'' = None \<and>
           vector_store_init w (Index (PineconeClient pk) ''langchain'') (OpenAIEmbeddings k) ''text'' = None \<and>
           similarity_search_with_score w
             (PineconeVectorStore (Index (PineconeClient pk) ''langchain'') (OpenAIEmbeddings k) ''text'')
             query 3 = Inr results"
  using assms by (auto simp add: retrieval_returns_def split: option.splits)

text \<open>
  C2: when the retrieval returns results of which none scores above 0.7 (none at all
  included), \<^verbatim>\<open>get_answer\<close> answers with status 200 and the JSON body holding the canned
  answer and the metadata: \<^verbatim>\<open>query\<close> is the query of the request and
  \<^verbatim>\<open>documents_found\<close> the number of results before filtering. The run makes no
  chat-completion call.
\<close>

theorem get_answer_no_match:
  assumes "get_json req = Inr (JObject kvs)" and "map_of kvs ''query'' = Some query" and "truthy query"
    and "retrieval_returns w query results"
    and "\<forall>r \<in> set results. snd r \<le> 0.7"
  shows "fst (get_answer w req) =
           Inr \<lparr>body = json_dumps (float_repr w)
                         (JObject [(''answer'', JString ''I couldn't find any relevant information to answer your question.''),
                                   (''metadata'', JObject [(''query'', query),
                                                           (''documents_found'', JInt (int (length results)))])]),
                 status_code = 200, mimetype = ''application/json''\<rparr>
         \<and> filter is_chat_call (snd (get_answer w req)) = []"
proof -
  from get_answer_retrieved [OF assms(4)] obtain k pk where
    env: "getenv w ''OPENAI_API_KEY'' = Some k" "getenv w ''PINECONE_API_KEY'' = Some pk" "k \<noteq> []" "pk \<noteq> []"
    and up: "embeddings_init w k = None" "pinecone_init w pk = None"
      "index_init w (PineconeClient pk) ''langchain'' = None"
      "vector_store_init w (Index (PineconeClient pk) ''langchain'') (OpenAIEmbeddings k) ''text'' = None"
    and found: "similarity_search_with_score w
             (PineconeVectorStore (Index (PineconeClient pk) ''langchain'') (OpenAIEmbeddings k) ''text'')
             query 3 = Inr results"
    by blast
  show ?thesis
    using assms(1-3) env up found above_threshold_empty [OF assms(5)]
    by (simp add: get_answer_def get_answer_try_def action_defs dict_get_def HttpResponse_def
        initialize_embeddings_def get_pinecone_client_def Let_def del: json_dumps.simps)
qed

theorem get_answer_no_match_witness:
  \<open>get_json (json_request ''{"query": "x"}'' (JObject [(''query'', JString ''x'')])) =
     Inr (JObject [(''query'', JString ''x'')]) \<and>
   map_of [(''query'', JString ''x'')] ''query'' = Some (JString ''x'') \<and> truthy (JString ''x'') \<and>
   retrieval_returns (mock_world [(plain_doc ''a'', 0.6), (plain_doc ''b'', 0.7), (plain_doc ''c'', 0.5)]) (JString ''x'')
     [(plain_doc ''a'', 0.6), (plain_doc ''b'', 0.7), (plain_doc ''c'', 0.5)] \<and>
   list_all (\<lambda>r. snd r \<le> 0.7) [(plain_doc ''a'', 0.6 :: real), (plain_doc ''b'', 0.7), (plain_doc ''c'', 0.5)] \<and>
   fst (get_answer (mock_world [(plain_doc ''a'', 0.6), (plain_doc ''b'', 0.7), (plain_doc ''c'', 0.5)])
          (json_request ''{"query": "x"}'' (JObject [(''query'', JString ''x'')]))) =
     Inr \<lparr>body = ''{"answer": "I couldn't find any relevant information to answer your question.", "metadata": {"query": "x", "documents_found": 3}}'',
           status_code = 200, mimetype = ''application/json''\<rparr> \<and>
   filter is_chat_call (snd (get_answer (mock_world [(plain_doc ''a'', 0.6), (plain_doc ''b'', 0.7), (plain_doc ''c'', 0.5)])
          (json_request ''{"query": "x"}'' (JObject [(''query'', JString ''x'')])))) = [] \<and>
   retrieval_returns (mock_world []) (JString ''x'') [] \<and>
   fst (get_answer (mock_world []) (json_request ''{"query": "x"}'' (JObject [(''query'', JString ''x'')]))) =
     Inr \<lparr>body = ''{"answer": "I couldn't find any relevant information to answer your question.", "metadata": {"query": "x", "documents_found": 0}}'',
           status_code = 200, mimetype = ''application/json''\<rparr>\<close>
proof -
  let ?rs = "[(plain_doc ''a'', 0.6 :: real), (plain_doc ''b'', 0.7), (plain_doc ''c'', 0.5)]"
  let ?req = "json_request ''{\"query\": \"x\"}'' (JObject [(''query'', JString ''x'')])"
  have parsed: "get_json ?req = Inr (JObject [(''query'', JString ''x'')])"
    by (simp add: json_request_def)
  have query: "map_of [(''query'', JString ''x'')] ''query'' = Some (JString ''x'')" "truthy (JString ''x'')"
    by simp_all
  have retrieved: "retrieval_returns (mock_world ?rs) (JString ''x'') ?rs"
    by (simp add: retrieval_returns_def mock_world_def)
  have low: "\<forall>r \<in> set ?rs. snd r \<le> 0.7"
    by simp
  have dumps: "float_repr (mock_world ?rs) = float_repr (mock_world [])"
    by (simp add: mock_world_def)
  have none_retrieved: "retrieval_returns (mock_world []) (JString ''x'') []"
    by (simp add: retrieval_returns_def mock_world_def)
  have none_low: "\<forall>r \<in> set ([] :: (document \<times> real) list). snd r \<le> 0.7"
    by simp
  show ?thesis
    using get_answer_no_match [OF parsed query retrieved low]
      get_answer_no_match [OF parsed query none_retrieved none_low] parsed retrieved none_retrieved
    by (simp add: dumps json_string_def json_escape_char_def str_int_def str_nat.simps hex_digits_def)
qed

lemma map_contents: "map (\<lambda>(doc, score). page_content doc) rs = map (page_content \<circ> fst) rs"
  by (rule map_cong) auto

lemma map_entries:
  "map (\<lambda>(doc, score). JObject [(''content'', JString (page_content doc)), (''score'', JFloat score)]) rs =
   map similar_doc_entry rs"
  by (rule map_cong) (auto simp add: similar_doc_entry_def)

lemma get_answer_after_retrieval:
  assumes "get_json req = Inr (JObject kvs)" and "map_of kvs ''query'' = Some query" and "truthy query"
    and "retrieval_returns w query results"
    and "above_threshold results \<noteq> []"
    and "fst (get_answer w req) = Inr resp" and "status_code resp = 200"
  shows "\<exists>answer. resp =
           \<lparr>body = json_dumps (float_repr w)
                     (JObject [(''answer'', JString answer),
                               (''context'', JString (join [CHR 0x0A, CHR 0x0A]
                                               (map (page_content \<circ> fst) (above_threshold results)))),
                               (''similar_docs'', JArray (map similar_doc_entry (above_threshold results)))]),
             status_code = 200, mimetype = ''application/json''\<rparr>"
proof -
  from get_answer_retrieved [OF assms(4)] obtain k pk where
    env: "getenv w ''OPENAI_API_KEY'' = Some k" "getenv w ''PINECONE_API_KEY'' = Some pk" "k \<noteq> []" "pk \<noteq> []"
    and up: "embeddings_init w k = None" "pinecone_init w pk = None"
      "index_init w (PineconeClient pk) ''langchain'' = None"
      "vector_store_init w (Index (PineconeClient pk) ''langchain'') (OpenAIEmbeddings k) ''text'' = None"
    and found: "similarity_search_with_score w
             (PineconeVectorStore (Index (PineconeClient pk) ''langchain'') (OpenAIEmbeddings k) ''text'')
             query 3 = Inr results"
    by blast
  show ?thesis
    using assms(1-3,5-7) env up found
    by (auto simp add: get_answer_def get_answer_try_def get_answer_except_def action_defs dict_get_def
        HttpResponse_def initialize_embeddings_def get_pinecone_client_def first_choice_content_def
        Let_def map_contents map_entries
        simp del: json_dumps.simps
        split: sum.splits option.splits list.splits)
qed

lemma dropped_entry_absent:
  assumes "snd r \<le> 0.7"
  shows "similar_doc_entry r \<notin> set (map similar_doc_entry (filter (\<lambda>r. 0.7 < snd r) results))"
  using assms by (auto simp add: similar_doc_entry_def)

text \<open>
  C1: when the retrieval returns results of which some score above 0.7 and \<^verbatim>\<open>get_answer\<close>
  answers with status 200, the \<^verbatim>\<open>context\<close> of the body is the contents of exactly the
  results scoring above 0.7, in retrieval order, joined by two newlines, and
  \<^verbatim>\<open>similar_docs\<close> is the list of their \<^verbatim>\<open>{content, score}\<close> entries in the same order;
  a result scoring 0.7 or less is not among the kept ones and its entry is not in
  \<^verbatim>\<open>similar_docs\<close>. The witness is the scenario of the scores 0.9, 0.75 and 0.6.
\<close>

theorem get_answer_keeps_above_threshold:
  assumes "get_json req = Inr (JObject kvs)" and "map_of kvs ''query'' = Some query" and "truthy query"
    and "retrieval_returns w query results"
    and "filter (\<lambda>r. 0.7 < snd r) results \<noteq> []"
    and "fst (get_answer w req) = Inr resp" and "status_code resp = 200"
  shows "(\<exists>answer. body resp =
            json_dumps (float_repr w)
              (JObject [(''answer'', JString answer),
                        (''context'', JString (join [CHR 0x0A, CHR 0x0A]
                                        (map (page_content \<circ> fst) (filter (\<lambda>r. 0.7 < snd r) results)))),
                        (''similar_docs'', JArray (map similar_doc_entry (filter (\<lambda>r. 0.7 < snd r) results)))]))
         \<and> (\<forall>r \<in> set results. snd r \<le> 0.7 \<longrightarrow>
               r \<notin> set (filter (\<lambda>r. 0.7 < snd r) results) \<and>
               similar_doc_entry r \<notin> set (map similar_doc_entry (filter (\<lambda>r. 0.7 < snd r) results)))"
proof -
  have kept: "above_threshold results \<noteq> []"
    unfolding above_threshold_eq by (rule assms(5))
  from get_answer_after_retrieval [OF assms(1-4) kept assms(6,7)]
  have "\<exists>answer. body resp =
            json_dumps (float_repr w)
              (JObject [(''answer'', JString answer),
                        (''context'', JString (join [CHR 0x0A, CHR 0x0A]
                                        (map (page_content \<circ> fst) (above_threshold results)))),
                        (''similar_docs'', JArray (map similar_doc_entry (above_threshold results)))])"
    by (auto simp del: json_dumps.simps)
  then have first: "\<exists>answer. body resp =
            json_dumps (float_repr w)
              (JObject [(''answer'', JString answer),
                        (''context'', JString (join [CHR 0x0A, CHR 0x0A]
                                        (map (page_content \<circ> fst) (filter (\<lambda>r. 0.7 < snd r) results)))),
                        (''similar_docs'', JArray (map similar_doc_entry (filter (\<lambda>r. 0.7 < snd r) results)))])"
    unfolding above_threshold_eq .
  have second: "\<forall>r \<in> set results. snd r \<le> 0.7 \<longrightarrow>
               r \<notin> set (filter (\<lambda>r. 0.7 < snd r) results) \<and>
               similar_doc_entry r \<notin> set (map similar_doc_entry (filter (\<lambda>r. 0.7 < snd r) results))"
    using dropped_entry_absent by auto
  from first second show ?thesis by blast
qed

theorem get_answer_keeps_above_threshold_witness:
  \<open>get_json (json_request ''{"query": "x"}'' (JObject [(''query'', JString ''x'')])) =
     Inr (JObject [(''query'', JString ''x'')]) \<and>
   map_of [(''query'', JString ''x'')] ''query'' = Some (JString ''x'') \<and> truthy (JString ''x'') \<and>
   retrieval_returns (mock_world [(plain_doc ''a'', 0.9), (plain_doc ''b'', 0.75), (plain_doc ''c'', 0.6)]) (JString ''x'')
     [(plain_doc ''a'', 0.9), (plain_doc ''b'', 0.75), (plain_doc ''c'', 0.6)] \<and>
   filter (\<lambda>r. 0.7 < snd r) [(plain_doc ''a'', 0.9 :: real), (plain_doc ''b'', 0.75), (plain_doc ''c'', 0.6)] =
     [(plain_doc ''a'', 0.9), (plain_doc ''b'', 0.75)] \<and>
   fst (get_answer (mock_world [(plain_doc ''a'', 0.9), (plain_doc ''b'', 0.75), (plain_doc ''c'', 0.6)])
          (json_request ''{"query": "x"}'' (JObject [(''query'', JString ''x'')]))) =
     Inr \<lparr>body = json_dumps (float_repr (mock_world []))
                    (JObject [(''answer'', JString ''An answer.''),
                              (''context'', JString [CHR ''a'', CHR 0x0A, CHR 0x0A, CHR ''b'']),
                              (''similar_docs'',
                               JArray [JObject [(''content'', JString ''a''), (''score'', JFloat 0.9)],
                                       JObject [(''content'', JString ''b''), (''score'', JFloat 0.75)]])]),
           status_code = 200, mimetype = ''application/json''\<rparr> \<and>
   (\<exists>answer.
      json_dumps (float_repr (mock_world []))
        (JObject [(''answer'', JString ''An answer.''),
                  (''context'', JString [CHR ''a'', CHR 0x0A, CHR 0x0A, CHR ''b'']),
                  (''similar_docs'',
                   JArray [JObject [(''content'', JString ''a''), (''score'', JFloat 0.9)],
                           JObject [(''content'', JString ''b''), (''score'', JFloat 0.75)]])]) =
      json_dumps (float_repr (mock_world []))
        (JObject [(''answer'', JString answer),
                  (''context'', JString (join [CHR 0x0A, CHR 0x0A] (map (page_content \<circ> fst) [(plain_doc ''a'', 0.9 :: real), (plain_doc ''b'', 0.75)]))),
                  (''similar_docs'', JArray (map similar_doc_entry [(plain_doc ''a'', 0.9), (plain_doc ''b'', 0.75)]))])) \<and>
   similar_doc_entry (plain_doc ''c'', 0.6) \<notin> set (map similar_doc_entry [(plain_doc ''a'', 0.9), (plain_doc ''b'', 0.75)])\<close>
proof -
  let ?rs = "[(plain_doc ''a'', 0.9 :: real), (plain_doc ''b'', 0.75), (plain_doc ''c'', 0.6)]"
  let ?req = "json_request ''{\"query\": \"x\"}'' (JObject [(''query'', JString ''x'')])"
  let ?resp = "\<lparr>body = json_dumps (float_repr (mock_world []))
                    (JObject [(''answer'', JString ''An answer.''),
                              (''context'', JString [CHR ''a'', CHR 0x0A, CHR 0x0A, CHR ''b'']),
                              (''similar_docs'',
                               JArray [JObject [(''content'', JString ''a''), (''score'', JFloat 0.9)],
                                       JObject [(''content'', JString ''b''), (''score'', JFloat 0.75)]])]),
           status_code = 200, mimetype = ''application/json''\<rparr>"
  have parsed: "get_json ?req = Inr (JObject [(''query'', JString ''x'')])"
    by (simp add: json_request_def)
  have query: "map_of [(''query'', JString ''x'')] ''query'' = Some (JString ''x'')" "truthy (JString ''x'')"
    by simp_all
  have retrieved: "retrieval_returns (mock_world ?rs) (JString ''x'') ?rs"
    by (simp add: retrieval_returns_def mock_world_def)
  have kept: "filter (\<lambda>r. 0.7 < snd r) ?rs = [(plain_doc ''a'', 0.9), (plain_doc ''b'', 0.75)]"
    by simp
  have nonempty: "filter (\<lambda>r. 0.7 < snd r) ?rs \<noteq> []"
    by simp
  have run: "fst (get_answer (mock_world ?rs) ?req) = Inr ?resp"
    by (simp add: get_answer_def get_answer_try_def action_defs dict_get_def HttpResponse_def
        initialize_embeddings_def get_pinecone_client_def first_choice_content_def Let_def
        above_threshold_def json_request_def mock_world_def plain_doc_def strip_def py_isspace_def
        del: json_dumps.simps)
  have status: "status_code ?resp = 200"
    by simp
  have dumps: "float_repr (mock_world ?rs) = float_repr (mock_world [])"
    by (simp add: mock_world_def)
  from get_answer_keeps_above_threshold [OF parsed query retrieved nonempty run status]
  have "\<exists>answer. body ?resp =
      json_dumps (float_repr (mock_world []))
        (JObject [(''answer'', JString answer),
                  (''context'', JString (join [CHR 0x0A, CHR 0x0A] (map (page_content \<circ> fst) [(plain_doc ''a'', 0.9 :: real), (plain_doc ''b'', 0.75)]))),
                  (''similar_docs'', JArray (map similar_doc_entry [(plain_doc ''a'', 0.9), (plain_doc ''b'', 0.75)]))])"
    unfolding kept dumps by blast
  moreover have "similar_doc_entry (plain_doc ''c'', 0.6) \<notin> set (map similar_doc_entry [(plain_doc ''a'', 0.9), (plain_doc ''b'', 0.75)])"
    by (simp add: similar_doc_entry_def plain_doc_def)
  ultimately show ?thesis
    using parsed query retrieved kept run by (simp del: json_dumps.simps)
qed

section \<open>Successful ingestion\<close>

lemma upserted_append: "upserted (tr @ tr') = upserted tr @ upserted tr'"
  by (induction tr rule: upserted.induct) simp_all

lemma chunk_documents_length: "length (chunk_documents w texts) = length texts"
  by (simp add: chunk_documents_def)

lemma chunk_documents_nth:
  assumes "i < length texts"
  shows "chunk_documents w texts ! i =
           \<lparr>page_content = texts ! i,
            metadata = [(''chunk_index'', JInt (int i)), (''upload_date'', JString (datetime_now_str w i))]\<rparr>"
  using assms by (simp add: chunk_documents_def nth_enumerate_eq)

lemma chunk_documents_contents: "map page_content (chunk_documents w texts) = texts"
  by (rule nth_equalityI) (simp_all add: chunk_documents_length chunk_documents_nth)

lemma chunk_documents_index:
  "map (\<lambda>d. map_of (metadata d) ''chunk_index'') (chunk_documents w texts) =
   map (\<lambda>i. Some (JInt (int i))) [0..<length texts]"
  by (rule nth_equalityI) (simp_all add: chunk_documents_length chunk_documents_nth)

lemma chunk_documents_date:
  "map (\<lambda>d. map_of (metadata d) ''upload_date'') (chunk_documents w texts) =
   map (\<lambda>i. Some (JString (datetime_now_str w i))) [0..<length texts]"
  by (rule nth_equalityI) (simp_all add: chunk_documents_length chunk_documents_nth)

lemma process_document_try_200:
  assumes "process_document_try w req tr0 = (Inr resp, tr)" and "status_code resp = 200"
    and "get_body_decode req = Inr content"
  shows "upserted tr = upserted tr0 @
           [chunk_documents w
              (split_text w \<lparr>chunk_size = 1000, chunk_overlap = 200,
                              separators = [[CHR 0x0A, CHR 0x0A], [CHR 0x0A], '' '', '''']\<rparr> content)] \<and>
         resp = \<lparr>body = json_dumps (float_repr w)
                          (JObject [(''status'', JString ''success''),
                                    (''chunks_processed'',
                                     JInt (int (length
                                       (split_text w \<lparr>chunk_size = 1000, chunk_overlap = 200,
                                           separators = [[CHR 0x0A, CHR 0x0A], [CHR 0x0A], '' '', '''']\<rparr> content))))]),
                 status_code = 200, mimetype = ''application/json''\<rparr>"
  using assms
  by (auto simp add: process_document_try_def action_defs HttpResponse_def
      initialize_embeddings_def get_pinecone_client_def Let_def upserted_append chunk_documents_length
      simp del: json_dumps.simps
      split: sum.splits option.splits if_splits)

lemma process_document_cases:
  "(\<exists>resp tr. process_document_try w req [Log INFO ''Process Document function processed a request.''] = (Inr resp, tr) \<and>
       process_document w req = (Inr resp, tr)) \<or>
   (\<exists>resp tr. process_document w req = (Inr resp, tr) \<and> status_code resp = 500)"
proof (cases "process_document_try w req [Log INFO ''Process Document function processed a request.'']")
  case (Pair r tr)
  then show ?thesis
    by (cases r)
      (simp_all add: process_document_def process_document_except_def and_then_def try_except_def
        logging_def return_def HttpResponse_def del: json_dumps.simps)
qed

text \<open>
  C9: when \<^verbatim>\<open>process_document\<close> answers a request with status 200, the body was not
  empty, the run hands one batch to \<^verbatim>\<open>add_documents\<close>, the documents of the \<open>n\<close> chunks
  in split order, the document at position \<open>i\<close> carries \<^verbatim>\<open>chunk_index\<close> \<open>i\<close> (so the
  indices are 0 to \<open>n - 1\<close>) and an \<^verbatim>\<open>upload_date\<close> string, and the body of the response
  is \<^verbatim>\<open>{"status": "success", "chunks_processed": n}\<close>.
\<close>

theorem process_document_success:
  assumes "get_body_decode req = Inr content"
    and "process_document w req = (Inr resp, tr)" and "status_code resp = 200"
  shows "let texts = split_text w \<lparr>chunk_size = 1000, chunk_overlap = 200,
                                   separators = [[CHR 0x0A, CHR 0x0A], [CHR 0x0A], '' '', '''']\<rparr> content;
             docs = chunk_documents w texts;
             n = length texts
         in content \<noteq> [] \<and> upserted tr = [docs] \<and> length docs = n \<and>
            map page_content docs = texts \<and>
            map (\<lambda>d. map_of (metadata d) ''chunk_index'') docs = map (\<lambda>i. Some (JInt (int i))) [0..<n] \<and>
            map (\<lambda>d. map_of (metadata d) ''upload_date'') docs =
              map (\<lambda>i. Some (JString (datetime_now_str w i))) [0..<n] \<and>
            resp = \<lparr>body = json_dumps (float_repr w)
                             (JObject [(''status'', JString ''success''), (''chunks_processed'', JInt (int n))]),
                    status_code = 200, mimetype = ''application/json''\<rparr>"
proof -
  let ?tr0 = "[Log INFO ''Process Document function processed a request.'']"
  have nonempty: "content \<noteq> []"
  proof
    assume "content = []"
    with assms(1) process_document_empty [of req w] assms(2,3) show False by simp
  qed
  from process_document_cases [of w req] assms(2,3)
  have "process_document_try w req ?tr0 = (Inr resp, tr)"
    by auto
  from process_document_try_200 [OF this assms(3,1)] nonempty show ?thesis
    by (simp add: Let_def chunk_documents_length chunk_documents_contents chunk_documents_index
        chunk_documents_date del: json_dumps.simps)
qed

theorem process_document_success_witness:
  \<open>get_body_decode (text_request (replicate 1200 CHR ''x'')) = Inr (replicate 1200 CHR ''x'') \<and>
   fst (process_document (mock_world []) (text_request (replicate 1200 CHR ''x''))) =
     Inr \<lparr>body = ''{"status": "success", "chunks_processed": 2}'', status_code = 200,
           mimetype = ''application/json''\<rparr> \<and>
   upserted (snd (process_document (mock_world []) (text_request (replicate 1200 CHR ''x'')))) =
     [[\<lparr>page_content = replicate 1000 CHR ''x'',
        metadata = [(''chunk_index'', JInt 0), (''upload_date'', JString ''2024-05-01 12:00:00.000000'')]\<rparr>,
       \<lparr>page_content = replicate 400 CHR ''x'',
        metadata = [(''chunk_index'', JInt 1), (''upload_date'', JString ''2024-05-01 12:00:00.000001'')]\<rparr>]]\<close>
proof -
  let ?w = "mock_world []"
  let ?content = "replicate 1200 CHR ''x''"
  let ?req = "text_request ?content"
  let ?ts = "\<lparr>chunk_size = 1000, chunk_overlap = 200,
              separators = [[CHR 0x0A, CHR 0x0A], [CHR 0x0A], '' '', '''']\<rparr>"
  have decoded: "get_body_decode ?req = Inr ?content"
    by (simp add: text_request_def)
  have texts: "split_text ?w ?ts ?content = [replicate 1000 CHR ''x'', replicate 400 CHR ''x'']"
    by (simp add: mock_world_def)
  have docs: "chunk_documents ?w [replicate 1000 CHR ''x'', replicate 400 CHR ''x''] =
     [\<lparr>page_content = replicate 1000 CHR ''x'',
        metadata = [(''chunk_index'', JInt 0), (''upload_date'', JString ''2024-05-01 12:00:00.000000'')]\<rparr>,
       \<lparr>page_content = replicate 400 CHR ''x'',
        metadata = [(''chunk_index'', JInt 1), (''upload_date'', JString ''2024-05-01 12:00:00.000001'')]\<rparr>]"
    by (simp add: chunk_documents_def enumerate_simps mock_world_def str_nat.simps hex_digits_def)
  let ?resp = "\<lparr>body = json_dumps (float_repr ?w)
                          (JObject [(''status'', JString ''success''), (''chunks_processed'', JInt 2)]),
                status_code = 200, mimetype = ''application/json''\<rparr>"
  have run: "fst (process_document ?w ?req) = Inr ?resp"
    by (simp add: process_document_def process_document_try_def action_defs HttpResponse_def
        initialize_embeddings_def get_pinecone_client_def Let_def text_request_def mock_world_def
        chunk_documents_def del: json_dumps.simps)
  have returned: "process_document ?w ?req = (Inr ?resp, snd (process_document ?w ?req))"
    by (simp add: prod_eq_iff run del: json_dumps.simps)
  have status: "status_code ?resp = 200"
    by simp
  from process_document_success [OF decoded returned status]
  show ?thesis
    using decoded run
    by (simp add: Let_def texts docs json_string_def json_escape_char_def str_int_def str_nat.simps
        hex_digits_def)
qed

section \<open>The 1500-character document\<close>

declare merge_loop.simps [simp del] pop_front.simps [simp del]

lemma join_nil: "join [] xs = concat xs"
  by (induction "[] :: string" xs rule: join.induct) simp_all

lemma dropWhile_replicate_keep:
  assumes "\<not> P c"
  shows "dropWhile P (replicate n c) = replicate n c"
  using assms by (cases n) simp_all

lemma strip_replicate:
  assumes "\<not> py_isspace c"
  shows "strip (replicate n c) = replicate n c"
  using assms by (simp add: strip_def dropWhile_replicate_keep)

lemma concat_replicate_single: "concat (replicate m [c]) = replicate m c"
  by (induction m) simp_all

lemma join_docs_replicate:
  assumes "\<not> py_isspace c"
  shows "join_docs (replicate m [c]) [] = (if m = 0 then None else Some (replicate m c))"
  using assms by (simp add: join_docs_def join_nil concat_replicate_single strip_replicate)

lemma merge_loop_fill:
  assumes "m + k \<le> chunk_size ts"
  shows "merge_loop ts [] (replicate k [c] @ rest) docs (replicate m [c]) (int m) =
         merge_loop ts [] rest docs (replicate (m + k) [c]) (int (m + k))"
  using assms
proof (induction k arbitrary: m)
  case 0
  then show ?case by simp
next
  case (Suc k)
  have "merge_loop ts [] (replicate (Suc k) [c] @ rest) docs (replicate m [c]) (int m) =
        merge_loop ts [] (replicate k [c] @ rest) docs (replicate (Suc m) [c]) (int (Suc m))"
    using Suc.prems by (simp add: merge_loop.simps replicate_append_same add.commute)
  also have "\<dots> = merge_loop ts [] rest docs (replicate (Suc m + k) [c]) (int (Suc m + k))"
    using Suc.prems by (intro Suc.IH) simp
  finally show ?case by simp
qed

lemma pop_front_replicate:
  assumes "chunk_overlap ts < chunk_size ts"
  shows "pop_front ts 0 1 (replicate m [c]) (int m) =
         (replicate (min m (chunk_overlap ts)) [c], int (min m (chunk_overlap ts)))"
  using assms
proof (induction m)
  case 0
  then show ?case by (simp add: pop_front.simps)
next
  case (Suc m)
  show ?case
  proof (cases "Suc m \<le> chunk_overlap ts")
    case True
    with Suc.prems show ?thesis by (simp add: pop_front.simps)
  next
    case False
    then have "pop_front ts 0 1 (replicate (Suc m) [c]) (int (Suc m)) =
               pop_front ts 0 1 (replicate m [c]) (int m)"
      by (simp add: pop_front.simps)
    with Suc False show ?thesis by (simp add: min_def)
  qed
qed

lemma merge_loop_overflow:
  assumes "chunk_overlap ts < chunk_size ts" and "\<not> py_isspace c"
  shows "merge_loop ts [] ([c] # rest) docs (replicate (chunk_size ts) [c]) (int (chunk_size ts)) =
         merge_loop ts [] rest (docs @ [replicate (chunk_size ts) c])
           (replicate (Suc (chunk_overlap ts)) [c]) (int (Suc (chunk_overlap ts)))"
  using assms
  by (simp add: merge_loop.simps join_docs_replicate pop_front_replicate min_def replicate_append_same
      add.commute)

lemma merge_loop_end:
  assumes "\<not> py_isspace c" and "0 < m"
  shows "merge_loop ts [] [] docs (replicate m [c]) running = docs @ [replicate m c]"
  using assms by (simp add: merge_loop.simps join_docs_replicate)

lemma merge_splits_run:
  assumes "chunk_size ts = 1000" and "chunk_overlap ts = 200" and "\<not> py_isspace c"
  shows "merge_splits ts (replicate 1500 [c]) [] = [replicate 1000 c, replicate 700 c]"
proof -
  have "replicate (1000 + Suc 499) [c] = replicate 1000 [c] @ ([c] # (replicate 499 [c] @ []))"
    by (simp only: replicate_add replicate_Suc append_Nil2)
  moreover have "1000 + Suc 499 = (1500 :: nat)"
    by simp
  ultimately have "replicate 1500 [c] = replicate 1000 [c] @ ([c] # (replicate 499 [c] @ []))"
    by simp
  then have "merge_splits ts (replicate 1500 [c]) [] =
      merge_loop ts [] (replicate 1000 [c] @ ([c] # (replicate 499 [c] @ []))) [] (replicate 0 [c]) (int 0)"
    by (simp add: merge_splits_def)
  also have "\<dots> = merge_loop ts [] ([c] # (replicate 499 [c] @ [])) [] (replicate 1000 [c]) (int 1000)"
    using assms(1) merge_loop_fill [of 0 1000 ts c "[c] # (replicate 499 [c] @ [])" "[]"] by simp
  also have "\<dots> = merge_loop ts [] (replicate 499 [c] @ []) [replicate 1000 c] (replicate 201 [c]) (int 201)"
    using assms merge_loop_overflow [of ts c "replicate 499 [c] @ []" "[]"] by simp
  also have "\<dots> = merge_loop ts [] [] [replicate 1000 c] (replicate 700 [c]) (int 700)"
    using assms(1) merge_loop_fill [of 201 499 ts c "[]" "[replicate 1000 c]"] by simp
  also have "\<dots> = [replicate 1000 c, replicate 700 c]"
    using assms(3) by (simp add: merge_loop_end)
  finally show ?thesis .
qed

lemma split_loop_all_good:
  assumes "\<forall>s \<in> set splits. length s < chunk_size ts"
  shows "split_loop ts deeper splits final good =
         (if good @ splits \<noteq> [] then final @ merge_splits ts (good @ splits) [] else final)"
  using assms by (induction splits arbitrary: good) simp_all

lemma contains_replicate:
  assumes "s \<noteq> []" and "c \<notin> set s"
  shows "\<not> contains s (replicate n c)"
proof (induction n)
  case 0
  from assms(1) show ?case by simp
next
  case (Suc n)
  have "take (length s) (c # replicate n c) \<noteq> s"
  proof
    assume "take (length s) (c # replicate n c) = s"
    then have "set s \<subseteq> set (c # replicate n c)"
      by (metis set_take_subset)
    with assms show False by (cases s) auto
  qed
  with Suc show ?case by simp
qed

lemma split_characters: "split_text_with_regex (replicate n c) [] = replicate n [c]"
  by (simp add: split_text_with_regex_def map_replicate)

lemma recursive_split_text_run:
  "recursive_split_text
     \<lparr>chunk_size = 1000, chunk_overlap = 200,
      separators = [[CHR 0x0A, CHR 0x0A], [CHR 0x0A], '' '', '''']\<rparr>
     (replicate 1500 CHR ''A'') =
   [replicate 1000 CHR ''A'', replicate 700 CHR ''A'']"
proof -
  let ?ts = "\<lparr>chunk_size = 1000, chunk_overlap = 200,
              separators = [[CHR 0x0A, CHR 0x0A], [CHR 0x0A], '' '', '''']\<rparr>"
  let ?text = "replicate 1500 CHR ''A''"
  have no_sep: "\<not> contains [CHR 0x0A, CHR 0x0A] ?text" "\<not> contains [CHR 0x0A] ?text" "\<not> contains '' '' ?text"
    by (rule contains_replicate; simp)+
  have "recursive_split_text ?ts ?text = split_loop ?ts (\<lambda>x. [x]) (replicate 1500 [CHR ''A'']) [] []"
    using no_sep by (simp add: recursive_split_text_def split_characters)
  also have "\<dots> = merge_splits ?ts (replicate 1500 [CHR ''A'']) []"
    by (subst split_loop_all_good) simp_all
  also have "\<dots> = [replicate 1000 CHR ''A'', replicate 700 CHR ''A'']"
    by (rule merge_splits_run) (simp_all add: py_isspace_def)
  finally show ?thesis .
qed

text \<open>
  C4: with the splitter of the previous section, a \<^verbatim>\<open>process_document\<close> request whose
  body is the character \<^verbatim>\<open>A\<close> 1500 times is split into exactly two chunks (the first
  1000 characters, and the last 700, which start with the 200 characters of overlap); a run
  that answers 200 upserts their two documents with \<^verbatim>\<open>chunk_index\<close> 0 and 1, and the body
  of the response is \<^verbatim>\<open>{"status": "success", "chunks_processed": 2}\<close>.
\<close>

theorem process_document_1500_characters:
  assumes "split_text w = recursive_split_text"
    and "get_body_decode req = Inr (replicate 1500 CHR ''A'')"
    and "process_document w req = (Inr resp, tr)" and "status_code resp = 200"
  shows \<open>split_text w \<lparr>chunk_size = 1000, chunk_overlap = 200,
                         separators = [[CHR 0x0A, CHR 0x0A], [CHR 0x0A], '' '', '''']\<rparr>
             (replicate 1500 CHR ''A'') =
           [replicate 1000 CHR ''A'', replicate 700 CHR ''A'']
         \<and> upserted tr =
           [[\<lparr>page_content = replicate 1000 CHR ''A'',
              metadata = [(''chunk_index'', JInt 0), (''upload_date'', JString (datetime_now_str w 0))]\<rparr>,
             \<lparr>page_content = replicate 700 CHR ''A'',
              metadata = [(''chunk_index'', JInt 1), (''upload_date'', JString (datetime_now_str w 1))]\<rparr>]]
         \<and> resp = \<lparr>body = ''{"status": "success", "chunks_processed": 2}'', status_code = 200,
                    mimetype = ''application/json''\<rparr>\<close>
proof -
  let ?tr0 = "[Log INFO ''Process Document function processed a request.'']"
  let ?ts = "\<lparr>chunk_size = 1000, chunk_overlap = 200,
              separators = [[CHR 0x0A, CHR 0x0A], [CHR 0x0A], '' '', '''']\<rparr>"
  have texts: "split_text w ?ts (replicate 1500 CHR ''A'') = [replicate 1000 CHR ''A'', replicate 700 CHR ''A'']"
    by (simp only: assms(1) recursive_split_text_run)
  have docs: "chunk_documents w [replicate 1000 CHR ''A'', replicate 700 CHR ''A''] =
           [\<lparr>page_content = replicate 1000 CHR ''A'',
              metadata = [(''chunk_index'', JInt 0), (''upload_date'', JString (datetime_now_str w 0))]\<rparr>,
             \<lparr>page_content = replicate 700 CHR ''A'',
              metadata = [(''chunk_index'', JInt 1), (''upload_date'', JString (datetime_now_str w 1))]\<rparr>]"
    by (simp add: chunk_documents_def enumerate_simps)
  from process_document_cases [of w req] assms(3,4)
  have "process_document_try w req ?tr0 = (Inr resp, tr)"
    by auto
  from process_document_try_200 [OF this assms(4,2)] texts docs show ?thesis
    by (simp add: json_string_def json_escape_char_def str_int_def str_nat.simps hex_digits_def)
qed

theorem process_document_1500_characters_witness:
  \<open>split_text ((mock_world []) \<lparr>split_text := recursive_split_text\<rparr>) = recursive_split_text \<and>
   get_body_decode (text_request (replicate 1500 CHR ''A'')) = Inr (replicate 1500 CHR ''A'') \<and>
   fst (process_document ((mock_world []) \<lparr>split_text := recursive_split_text\<rparr>)
          (text_request (replicate 1500 CHR ''A''))) =
     Inr \<lparr>body = ''{"status": "success", "chunks_processed": 2}'', status_code = 200,
           mimetype = ''application/json''\<rparr> \<and>
   upserted (snd (process_document ((mock_world []) \<lparr>split_text := recursive_split_text\<rparr>)
          (text_request (replicate 1500 CHR ''A'')))) =
     [[\<lparr>page_content = replicate 1000 CHR ''A'',
        metadata = [(''chunk_index'', JInt 0), (''upload_date'', JString ''2024-05-01 12:00:00.000000'')]\<rparr>,
       \<lparr>page_content = replicate 700 CHR ''A'',
        metadata = [(''chunk_index'', JInt 1), (''upload_date'', JString ''2024-05-01 12:00:00.000001'')]\<rparr>]]\<close>
proof -
  let ?w = "(mock_world []) \<lparr>split_text := recursive_split_text\<rparr>"
  let ?content = "replicate 1500 CHR ''A''"
  let ?req = "text_request ?content"
  let ?resp = "\<lparr>body = json_dumps (float_repr ?w)
                          (JObject [(''status'', JString ''success''), (''chunks_processed'', JInt 2)]),
                status_code = 200, mimetype = ''application/json''\<rparr>"
  have splitter: "split_text ?w = recursive_split_text"
    by simp
  have decoded: "get_body_decode ?req = Inr ?content"
    by (simp add: text_request_def)
  have run: "fst (process_document ?w ?req) = Inr ?resp"
    by (simp add: process_document_def process_document_try_def action_defs HttpResponse_def
        initialize_embeddings_def get_pinecone_client_def Let_def text_request_def
        recursive_split_text_run chunk_documents_def mock_world_def del: json_dumps.simps)
  have returned: "process_document ?w ?req = (Inr ?resp, snd (process_document ?w ?req))"
    by (simp add: prod_eq_iff run del: json_dumps.simps)
  have status: "status_code ?resp = 200"
    by simp
  have now: "datetime_now_str ?w 0 = ''2024-05-01 12:00:00.000000''"
    "datetime_now_str ?w 1 = ''2024-05-01 12:00:00.000001''"
    by (simp_all add: mock_world_def str_nat.simps hex_digits_def)
  from process_document_1500_characters [OF splitter decoded returned status]
  show ?thesis
    using decoded run now
    by (simp add: json_string_def json_escape_char_def str_int_def str_nat.simps hex_digits_def)
qed

end
